theory Spec2Isabelle
  imports Main
begin

section \<open>The AWS Lambda metrics plugin: data model\<close>

text \<open>
  The embedding follows the library version of the plugin (package \<open>mpawslambda\<close>), the one
  with \<open>getLastPointFromCloudWatch\<close>, \<open>TransformMetrics\<close> and \<open>FetchMetrics\<close>.

  An instant (\<open>time.Time\<close>) is an integer: nanoseconds from the zero value of
  \<open>time.Time\<close> (January 1, year 1, 00:00:00 UTC). Instants before the zero value are
  negative. \<open>Before\<close> compares instants, \<open>Add\<close> adds a \<open>time.Duration\<close>, itself a number
  of nanoseconds.
\<close>

type_synonym Time = int

definition zeroTime :: Time where
  "zeroTime = 0"

definition Before :: "Time \<Rightarrow> Time \<Rightarrow> bool" where
  "Before t u = (t < u)"

definition Second :: int where
  "Second = 1000000000"

definition Add :: "Time \<Rightarrow> int \<Rightarrow> Time" where
  "Add t d = t + d"

definition namespace :: string where
  "namespace = ''AWS/Lambda''"

definition metricsTypeAverage :: string where
  "metricsTypeAverage = ''Average''"

definition metricsTypeSum :: string where
  "metricsTypeSum = ''Sum''"

definition metricsTypeMaximum :: string where
  "metricsTypeMaximum = ''Maximum''"

definition metricsTypeMinimum :: string where
  "metricsTypeMinimum = ''Minimum''"

record metric =
  MackerelName :: string
  Type :: string

record metricsGroup =
  CloudWatchName :: string
  Metrics :: "metric list"

record LambdaPlugin =
  FunctionName :: string
  Prefix :: string
  AccessKeyID :: string
  SecretAccessKey :: string
  Region :: string

text \<open>
  \<open>cloudwatch.Datapoint\<close>: every field is a pointer, \<open>None\<close> is the nil pointer. The
  type \<open>'f\<close> stands for \<open>float64\<close>; the only arithmetic the plugin does on it is one
  subtraction.
\<close>

record 'f Datapoint =
  Timestamp :: "Time option"
  Average :: "'f option"
  Sum :: "'f option"
  Maximum :: "'f option"
  Minimum :: "'f option"

record Dimension =
  Name :: string
  Value :: string

record GetMetricStatisticsInput =
  Dimensions :: "Dimension list"
  StartTime :: Time
  EndTime :: Time
  MetricName :: string
  Period :: int
  Statistics :: "string list"
  Namespace :: string

text \<open>The response holds a slice of pointers to datapoints; an element may be nil.\<close>

record 'f GetMetricStatisticsOutput =
  Datapoints :: "'f Datapoint option list"

text \<open>
  A value of type \<open>interface{}\<close> in the statistics map: a \<open>float64\<close>, or a value of
  any other dynamic type (kept by its printed form), on which the type assertion
  \<open>.(float64)\<close> fails.
\<close>

datatype 'f interface = Float64 'f | Other string

type_synonym 'f stats = "string \<rightharpoonup> 'f interface"

text \<open>
  A Go \<open>error\<close> value, by what a caller can inspect of it: the value that
  \<open>errors.New\<close> makes is an error string with its text; \<open>error_of e\<close> is an error of
  any other dynamic type. The client may return either kind (the mock client of the
  tests returns error strings); the plugin has no error type, wrapper or sentinel of its
  own.
\<close>

datatype 'e error = errors_New string | error_of 'e

text \<open>A call either returns or panics (a nil pointer is dereferenced).\<close>

datatype 'a exec = Panic | Return 'a

text \<open>
  What the plugin calls outside itself, over a world \<open>'w\<close> that the calls change:
  the wall clock, the CloudWatch client (it returns a response pointer and an error,
  as the Go method does) and the logger.
\<close>

record ('w, 'e, 'f) runtime =
  time_Now :: "'w \<Rightarrow> Time \<times> 'w"
  GetMetricStatistics ::
    "GetMetricStatisticsInput \<Rightarrow> 'w \<Rightarrow> ('f GetMetricStatisticsOutput option \<times> 'e error option) \<times> 'w"
  log_Printf :: "metricsGroup \<Rightarrow> 'e error \<Rightarrow> 'w \<Rightarrow> 'w"

section \<open>getLastPointFromCloudWatch\<close>

text \<open>
  The selection loop: \<open>latest\<close> starts at the zero time, \<open>latestDp\<close> at nil; a
  datapoint whose timestamp is before \<open>latest\<close> is passed over, any other replaces both.
  Reading the timestamp of a nil datapoint, or comparing a nil timestamp, panics.
\<close>

fun latest_loop ::
  "Time \<Rightarrow> 'f Datapoint option \<Rightarrow> 'f Datapoint option list \<Rightarrow> 'f Datapoint option exec" where
  "latest_loop latest latestDp [] = Return latestDp"
| "latest_loop latest latestDp (dp # dps) =
     (case dp of
        None \<Rightarrow> Panic
      | Some d \<Rightarrow>
          (case Timestamp d of
             None \<Rightarrow> Panic
           | Some ts \<Rightarrow>
               if Before ts latest then latest_loop latest latestDp dps
               else latest_loop ts (Some d) dps))"

text \<open>
  The argument of the one call of \<open>GetMetricStatistics\<close>: the struct literal of
  \<open>getLastPointFromCloudWatch\<close>, with \<open>statsInput\<close> the types of the group's metrics
  in their order.
\<close>

definition getMetricStatisticsInput ::
  "string \<Rightarrow> metricsGroup \<Rightarrow> Time \<Rightarrow> GetMetricStatisticsInput" where
  "getMetricStatisticsInput functionName metric now =
     (let statsInput = map Type (Metrics metric)
      in \<lparr>Dimensions = [\<lparr>Name = ''FunctionName'', Value = functionName\<rparr>],
          StartTime = Add now (180 * Second * - 1),
          EndTime = now,
          MetricName = CloudWatchName metric,
          Period = 600,
          Statistics = statsInput,
          Namespace = namespace\<rparr>)"

definition getLastPointFromCloudWatch ::
  "('w, 'e, 'f) runtime \<Rightarrow> string \<Rightarrow> metricsGroup \<Rightarrow> 'w
    \<Rightarrow> ('e error + 'f Datapoint option) exec \<times> 'w" where
  "getLastPointFromCloudWatch rt functionName metric w =
     (let (now, w1) = time_Now rt w;
          ((response, err), w2) =
            GetMetricStatistics rt (getMetricStatisticsInput functionName metric now) w1
      in case err of
           Some e \<Rightarrow> (Return (Inl e), w2)
         | None \<Rightarrow>
             (case response of
                None \<Rightarrow> (Panic, w2)
              | Some r \<Rightarrow>
                  if length (Datapoints r) = 0
                  then (Return (Inl (errors_New ''fetched no datapoints'')), w2)
                  else (case latest_loop zeroTime None (Datapoints r) of
                          Panic \<Rightarrow> (Panic, w2)
                        | Return latestDp \<Rightarrow> (Return (Inr latestDp), w2))))"

section \<open>TransformMetrics\<close>

definition TransformMetrics :: "('f::minus) stats \<Rightarrow> 'f stats" where
  "TransformMetrics stats =
     (case stats ''TEMPORARY_invocations_total'' of
        Some (Float64 totalCount) \<Rightarrow>
          (let stats1 =
             (case stats ''invocations_error'' of
                Some (Float64 errorCount) \<Rightarrow>
                  stats(''invocations_success'' \<mapsto> Float64 (totalCount - errorCount))
              | _ \<Rightarrow> stats(''invocations_success'' \<mapsto> Float64 totalCount))
           in stats1(''TEMPORARY_invocations_total'' := None))
      | _ \<Rightarrow> stats)"

section \<open>FetchMetrics\<close>

definition catalog :: "metricsGroup list" where
  "catalog =
     [\<lparr>CloudWatchName = ''Invocations'', Metrics =
         [\<lparr>MackerelName = ''TEMPORARY_invocations_total'', Type = metricsTypeSum\<rparr>]\<rparr>,
      \<lparr>CloudWatchName = ''Errors'', Metrics =
         [\<lparr>MackerelName = ''invocations_error'', Type = metricsTypeSum\<rparr>]\<rparr>,
      \<lparr>CloudWatchName = ''Throttles'', Metrics =
         [\<lparr>MackerelName = ''invocations_throttles'', Type = metricsTypeSum\<rparr>]\<rparr>,
      \<lparr>CloudWatchName = ''Duration'', Metrics =
         [\<lparr>MackerelName = ''duration_avg'', Type = metricsTypeAverage\<rparr>,
          \<lparr>MackerelName = ''duration_max'', Type = metricsTypeMaximum\<rparr>,
          \<lparr>MackerelName = ''duration_min'', Type = metricsTypeMinimum\<rparr>]\<rparr>]"

text \<open>
  The inner loop of \<open>FetchMetrics\<close>: one write per metric of the group, the field read
  chosen by the metric's type. The switch has no default: a metric of another type
  writes nothing and dereferences nothing.
\<close>

fun merge_loop :: "'f Datapoint option \<Rightarrow> metric list \<Rightarrow> 'f stats \<Rightarrow> 'f stats exec" where
  "merge_loop v [] stat = Return stat"
| "merge_loop v (typ # typs) stat =
     (if Type typ = metricsTypeAverage then
        (case v of None \<Rightarrow> Panic | Some d \<Rightarrow>
          (case Average d of None \<Rightarrow> Panic
           | Some x \<Rightarrow> merge_loop v typs (stat(MackerelName typ \<mapsto> Float64 x))))
      else if Type typ = metricsTypeSum then
        (case v of None \<Rightarrow> Panic | Some d \<Rightarrow>
          (case Sum d of None \<Rightarrow> Panic
           | Some x \<Rightarrow> merge_loop v typs (stat(MackerelName typ \<mapsto> Float64 x))))
      else if Type typ = metricsTypeMaximum then
        (case v of None \<Rightarrow> Panic | Some d \<Rightarrow>
          (case Maximum d of None \<Rightarrow> Panic
           | Some x \<Rightarrow> merge_loop v typs (stat(MackerelName typ \<mapsto> Float64 x))))
      else if Type typ = metricsTypeMinimum then
        (case v of None \<Rightarrow> Panic | Some d \<Rightarrow>
          (case Minimum d of None \<Rightarrow> Panic
           | Some x \<Rightarrow> merge_loop v typs (stat(MackerelName typ \<mapsto> Float64 x))))
      else merge_loop v typs stat)"

text \<open>The outer loop: a fetch that returns an error is logged and its group left out.\<close>

fun fetch_loop ::
  "('w, 'e, 'f) runtime \<Rightarrow> LambdaPlugin \<Rightarrow> metricsGroup list \<Rightarrow> 'f stats \<Rightarrow> 'w
    \<Rightarrow> 'f stats exec \<times> 'w" where
  "fetch_loop rt p [] stat w = (Return stat, w)"
| "fetch_loop rt p (met # mets) stat w =
     (case getLastPointFromCloudWatch rt (FunctionName p) met w of
        (Panic, w') \<Rightarrow> (Panic, w')
      | (Return (Inr v), w') \<Rightarrow>
          (case merge_loop v (Metrics met) stat of
             Panic \<Rightarrow> (Panic, w')
           | Return stat' \<Rightarrow> fetch_loop rt p mets stat' w')
      | (Return (Inl err), w') \<Rightarrow> fetch_loop rt p mets stat (log_Printf rt met err w'))"

text \<open>\<open>FetchMetrics\<close> returns the transformed map and a nil error.\<close>

definition FetchMetrics ::
  "('w, 'e, 'f::minus) runtime \<Rightarrow> LambdaPlugin \<Rightarrow> 'w
    \<Rightarrow> ('f stats \<times> 'e error option) exec \<times> 'w" where
  "FetchMetrics rt p w =
     (case fetch_loop rt p catalog Map.empty w of
        (Panic, w') \<Rightarrow> (Panic, w')
      | (Return stat, w') \<Rightarrow> (Return (TransformMetrics stat, None), w'))"

section \<open>GraphDefinition\<close>

text \<open>
  The graph schema handed to the agent: the metric names it shows. \<open>title\<close> stands for
  \<open>strings.Title\<close>.
\<close>

record Metrics_mp =
  Name_mp :: string
  Label_mp :: string
  Stacked_mp :: bool

record Graphs_mp =
  Label_g :: string
  Unit_g :: string
  Metrics_g :: "Metrics_mp list"

definition GraphDefinition :: "(string \<Rightarrow> string) \<Rightarrow> LambdaPlugin \<Rightarrow> (string \<rightharpoonup> Graphs_mp)" where
  "GraphDefinition title p =
     (let labelPrefix = title (Prefix p)
      in [''invocations'' \<mapsto>
            \<lparr>Label_g = labelPrefix @ '' Invocations'', Unit_g = ''integer'', Metrics_g =
               [\<lparr>Name_mp = ''invocations_success'', Label_mp = ''Success'', Stacked_mp = True\<rparr>,
                \<lparr>Name_mp = ''invocations_error'', Label_mp = ''Error'', Stacked_mp = True\<rparr>,
                \<lparr>Name_mp = ''invocations_throttles'', Label_mp = ''Throttles'',
                  Stacked_mp = True\<rparr>]\<rparr>,
          ''duration'' \<mapsto>
            \<lparr>Label_g = labelPrefix @ '' Duration'', Unit_g = ''float'', Metrics_g =
               [\<lparr>Name_mp = ''duration_avg'', Label_mp = ''Average'', Stacked_mp = False\<rparr>,
                \<lparr>Name_mp = ''duration_max'', Label_mp = ''Maximum'', Stacked_mp = False\<rparr>,
                \<lparr>Name_mp = ''duration_min'', Label_mp = ''Minimum'', Stacked_mp = False\<rparr>]\<rparr>])"

section \<open>Notions used to state the properties\<close>

text \<open>
  A key that is absent from a record or holds a \<open>float64\<close>, and a record in which every
  value is a \<open>float64\<close>.
\<close>

definition float64_at :: "'f stats \<Rightarrow> string \<Rightarrow> bool" where
  "float64_at stats k =
     (case stats k of None \<Rightarrow> True | Some (Float64 x) \<Rightarrow> True | Some (Other s) \<Rightarrow> False)"

definition float64_record :: "'f stats \<Rightarrow> bool" where
  "float64_record stats = (\<forall>k. float64_at stats k)"

text \<open>A datapoint pointer that is not nil and whose timestamp is not nil, and that timestamp.\<close>

definition has_timestamp :: "'f Datapoint option \<Rightarrow> bool" where
  "has_timestamp dp = (case dp of None \<Rightarrow> False | Some d \<Rightarrow> Timestamp d \<noteq> None)"

definition tstamp :: "'f Datapoint option \<Rightarrow> Time" where
  "tstamp dp = the (Timestamp (the dp))"

text \<open>The output names of a group, in order.\<close>

definition output_names :: "metricsGroup \<Rightarrow> string list" where
  "output_names g = map MackerelName (Metrics g)"

text \<open>
  A runtime that also keeps the list of the requests made of the CloudWatch client, as
  the mock client of the plugin's tests counts and inspects them.
\<close>

definition recording ::
  "('w, 'e, 'f) runtime \<Rightarrow> ('w \<times> GetMetricStatisticsInput list, 'e, 'f) runtime" where
  "recording rt =
     \<lparr>time_Now = (\<lambda>(w, reqs). case time_Now rt w of (t, w') \<Rightarrow> (t, (w', reqs))),
      GetMetricStatistics =
        (\<lambda>input (w, reqs).
           case GetMetricStatistics rt input w of (out, w') \<Rightarrow> (out, (w', reqs @ [input]))),
      log_Printf = (\<lambda>met err (w, reqs). (log_Printf rt met err w, reqs))\<rparr>"

section \<open>Test doubles\<close>

text \<open>
  The mock client of the plugin's tests: it counts the requests, refuses a request whose
  dimensions or statistics are not the expected ones, and answers with three datapoints
  stamped \<open>now\<close>, \<open>now + 60s\<close> and \<open>now - 60s\<close>. The clock is stopped at \<open>now\<close>. A second
  client answers every request with the same response and error.
\<close>

definition mockCloudWatchClient :: "Time \<Rightarrow> (nat, string, int) runtime" where
  "mockCloudWatchClient now =
     \<lparr>time_Now = (\<lambda>requestedCount. (now, requestedCount)),
      GetMetricStatistics = (\<lambda>input requestedCount.
        (if Dimensions input \<noteq> [\<lparr>Name = ''FunctionName'', Value = ''myFunction''\<rparr>]
         then (None, Some (errors_New ''Unexpected Dimension''))
         else if Statistics input \<noteq>
             (if MetricName input = ''Duration'' then [''Average'', ''Maximum'', ''Minimum'']
              else [''Sum''])
         then (None, Some (errors_New ''Wrong Statistics''))
         else if MetricName input = ''Duration''
         then (Some \<lparr>Datapoints =
                 [Some \<lparr>Timestamp = Some now, Average = Some 30, Sum = None,
                    Maximum = Some 50, Minimum = Some 10\<rparr>,
                  Some \<lparr>Timestamp = Some (Add now (60 * Second * 1)), Average = Some 25,
                    Sum = None, Maximum = Some 45, Minimum = Some 5\<rparr>,
                  Some \<lparr>Timestamp = Some (Add now (60 * Second * - 1)), Average = Some 35,
                    Sum = None, Maximum = Some 55, Minimum = Some 15\<rparr>]\<rparr>, None)
         else (Some \<lparr>Datapoints =
                 [Some \<lparr>Timestamp = Some now, Average = None, Sum = Some 30,
                    Maximum = None, Minimum = None\<rparr>,
                  Some \<lparr>Timestamp = Some (Add now (60 * Second * 1)), Average = None,
                    Sum = Some 25, Maximum = None, Minimum = None\<rparr>,
                  Some \<lparr>Timestamp = Some (Add now (60 * Second * - 1)), Average = None,
                    Sum = Some 35, Maximum = None, Minimum = None\<rparr>]\<rparr>, None),
         Suc requestedCount)),
      log_Printf = (\<lambda>met err requestedCount. requestedCount)\<rparr>"

definition fixedClient ::
  "Time \<Rightarrow> ('f GetMetricStatisticsOutput option \<times> 'e error option) \<Rightarrow> (unit, 'e, 'f) runtime" where
  "fixedClient now out =
     \<lparr>time_Now = (\<lambda>w. (now, w)),
      GetMetricStatistics = (\<lambda>input w. (out, w)),
      log_Printf = (\<lambda>met err w. w)\<rparr>"

text \<open>A client that fails every request for one metric name and hands the others on.\<close>

definition failingClient :: "string \<Rightarrow> 'e error \<Rightarrow> ('w, 'e, 'f) runtime \<Rightarrow> ('w, 'e, 'f) runtime" where
  "failingClient name e rt =
     rt\<lparr>GetMetricStatistics :=
          (\<lambda>input w. if MetricName input = name then ((None, Some e), w)
                      else GetMetricStatistics rt input w)\<rparr>"

text \<open>
  A client under a clock that advances by one nanosecond at each reading; the world is
  the clock. It answers every request with the same response and error.
\<close>

definition tickingClient ::
  "('f GetMetricStatisticsOutput option \<times> 'e error option) \<Rightarrow> (Time, 'e, 'f) runtime" where
  "tickingClient out =
     \<lparr>time_Now = (\<lambda>t. (t, t + 1)),
      GetMetricStatistics = (\<lambda>input t. (out, t)),
      log_Printf = (\<lambda>met err t. t)\<rparr>"

section \<open>Properties of TransformMetrics\<close>

lemma TransformMetrics_other_keys:
  "k \<noteq> ''invocations_success'' \<Longrightarrow> k \<noteq> ''TEMPORARY_invocations_total''
    \<Longrightarrow> TransformMetrics stats k = stats k"
  by (simp add: TransformMetrics_def split: option.splits interface.splits)

lemma TransformMetrics_float64_record:
  "float64_record stats \<Longrightarrow> float64_record (TransformMetrics stats)"
  unfolding float64_record_def float64_at_def TransformMetrics_def
  by (auto split: option.splits interface.splits)

lemma TransformMetrics_dom:
  "float64_record stats \<Longrightarrow>
    dom (TransformMetrics stats) \<subseteq>
      (dom stats - {''TEMPORARY_invocations_total''}) \<union> {''invocations_success''}"
  unfolding float64_record_def float64_at_def TransformMetrics_def
  by (auto split: option.splits interface.splits if_splits
      dest: spec[where x = "''TEMPORARY_invocations_total''"])

lemma TransformMetrics_deletes_total:
  "float64_record stats \<Longrightarrow> TransformMetrics stats ''TEMPORARY_invocations_total'' = None"
  unfolding float64_record_def float64_at_def TransformMetrics_def
  by (auto split: option.splits interface.splits
      dest: spec[where x = "''TEMPORARY_invocations_total''"])

text \<open>
  Outside the records of \<open>float64\<close> values: when the total key holds a value of another
  dynamic type, the type assertion fails and the record is returned as it is, the total
  key included.
\<close>

lemma TransformMetrics_non_float64_total:
  "stats ''TEMPORARY_invocations_total'' = Some (Other x) \<Longrightarrow> TransformMetrics stats = stats"
  by (simp add: TransformMetrics_def)

text \<open>
  C2. The success key follows exactly three rules. When the total key holds \<open>t\<close> and the
  error key holds \<open>e\<close>, success is \<open>t - e\<close>; when the total key holds \<open>t\<close> and the error
  key is absent, success is \<open>t\<close>; when the total key is absent, the record is returned as
  it is, so no success key is produced and every other key passes through. In a record of
  \<open>float64\<close> values a key is present exactly when it holds some \<open>Float64\<close>, so the three
  cases cover every record. In all cases the keys other than the success and the total
  key keep their values.
\<close>

theorem TransformMetrics_success_rules:
  "(stats ''TEMPORARY_invocations_total'' = Some (Float64 t)
      \<and> stats ''invocations_error'' = Some (Float64 e)
      \<longrightarrow> TransformMetrics stats ''invocations_success'' = Some (Float64 (t - e)))
   \<and> (stats ''TEMPORARY_invocations_total'' = Some (Float64 t)
      \<and> stats ''invocations_error'' = None
      \<longrightarrow> TransformMetrics stats ''invocations_success'' = Some (Float64 t))
   \<and> (stats ''TEMPORARY_invocations_total'' = None \<longrightarrow> TransformMetrics stats = stats)
   \<and> (\<forall>k. k \<noteq> ''invocations_success'' \<and> k \<noteq> ''TEMPORARY_invocations_total''
      \<longrightarrow> TransformMetrics stats k = stats k)"
proof (intro conjI)
  show "\<forall>k. k \<noteq> ''invocations_success'' \<and> k \<noteq> ''TEMPORARY_invocations_total''
      \<longrightarrow> TransformMetrics stats k = stats k"
    by (simp add: TransformMetrics_other_keys)
qed (simp_all add: TransformMetrics_def)

theorem TransformMetrics_success_rules_witness:
  "TransformMetrics
      [''TEMPORARY_invocations_total'' \<mapsto> Float64 (150::int),
       ''invocations_error'' \<mapsto> Float64 30,
       ''durations_avg'' \<mapsto> Float64 250] ''invocations_success'' = Some (Float64 120)
   \<and> TransformMetrics
      [''TEMPORARY_invocations_total'' \<mapsto> Float64 (150::int),
       ''invocations_error'' \<mapsto> Float64 30,
       ''durations_avg'' \<mapsto> Float64 250] ''durations_avg'' = Some (Float64 250)
   \<and> TransformMetrics
      [''TEMPORARY_invocations_total'' \<mapsto> Float64 (150::int),
       ''durations_avg'' \<mapsto> Float64 250] ''invocations_success'' = Some (Float64 150)
   \<and> TransformMetrics [''durations_avg'' \<mapsto> Float64 (250::int)]
      = [''durations_avg'' \<mapsto> Float64 250]"
  using
    TransformMetrics_success_rules
      [of "[''TEMPORARY_invocations_total'' \<mapsto> Float64 (150::int),
            ''invocations_error'' \<mapsto> Float64 30, ''durations_avg'' \<mapsto> Float64 250]" 150 30]
    TransformMetrics_success_rules
      [of "[''TEMPORARY_invocations_total'' \<mapsto> Float64 (150::int),
            ''durations_avg'' \<mapsto> Float64 250]" 150 0]
    TransformMetrics_success_rules [of "[''durations_avg'' \<mapsto> Float64 (250::int)]" 0 0]
  by simp

text \<open>
  C3. For every record in which the total key is absent or holds a \<open>float64\<close>, hence for
  every record of \<open>float64\<close> values, the total key is absent from what \<open>TransformMetrics\<close>
  returns, whether or not a success value was computed: absent before, it stays absent;
  present, it is deleted after the success value is written.
\<close>

theorem TransformMetrics_removes_total:
  "float64_at stats ''TEMPORARY_invocations_total''
    \<Longrightarrow> TransformMetrics stats ''TEMPORARY_invocations_total'' = None"
  by (simp add: float64_at_def TransformMetrics_def split: option.splits interface.splits)

theorem TransformMetrics_removes_total_witness:
  "float64_at
      [''TEMPORARY_invocations_total'' \<mapsto> Float64 (150::int), ''invocations_error'' \<mapsto> Float64 30]
      ''TEMPORARY_invocations_total''
   \<and> TransformMetrics
      [''TEMPORARY_invocations_total'' \<mapsto> Float64 (150::int), ''invocations_error'' \<mapsto> Float64 30]
      ''TEMPORARY_invocations_total'' = None
   \<and> float64_at [''durations_avg'' \<mapsto> Float64 (250::int)] ''TEMPORARY_invocations_total''
   \<and> TransformMetrics [''durations_avg'' \<mapsto> Float64 (250::int)]
      ''TEMPORARY_invocations_total'' = None"
proof -
  have a: "float64_at
      [''TEMPORARY_invocations_total'' \<mapsto> Float64 (150::int), ''invocations_error'' \<mapsto> Float64 30]
      ''TEMPORARY_invocations_total''"
    by (simp add: float64_at_def)
  have b: "float64_at [''durations_avg'' \<mapsto> Float64 (250::int)] ''TEMPORARY_invocations_total''"
    by (simp add: float64_at_def)
  from a TransformMetrics_removes_total [OF a] b TransformMetrics_removes_total [OF b]
  show ?thesis by (intro conjI)
qed

section \<open>Properties of the selection of the latest datapoint\<close>

lemma latest_loop_spec:
  "list_all has_timestamp dps \<Longrightarrow>
     (if \<forall>dp\<in>set dps. Before (tstamp dp) l then latest_loop l ld dps = Return ld
      else \<exists>i<length dps. latest_loop l ld dps = Return (dps ! i)
             \<and> \<not> Before (tstamp (dps ! i)) l
             \<and> (\<forall>j<length dps. tstamp (dps ! j) \<le> tstamp (dps ! i))
             \<and> (\<forall>j<length dps. i < j \<longrightarrow> tstamp (dps ! j) < tstamp (dps ! i)))"
proof (induction dps arbitrary: l ld)
  case Nil
  then show ?case by simp
next
  case (Cons dp dps)
  from Cons.prems have rest: "list_all has_timestamp dps" and hd: "has_timestamp dp"
    by simp_all
  from hd obtain d ts where dp: "dp = Some d" and ts: "Timestamp d = Some ts"
    by (auto simp: has_timestamp_def split: option.splits)
  have tdp: "tstamp dp = ts" by (simp add: tstamp_def dp ts)
  show ?case
  proof (cases "Before ts l")
    case True
    then have step: "latest_loop l ld (dp # dps) = latest_loop l ld dps"
      by (simp add: dp ts)
    show ?thesis
    proof (cases "\<forall>x\<in>set dps. Before (tstamp x) l")
      case all: True
      with Cons.IH[OF rest, of l ld] True show ?thesis
        by (simp add: step tdp del: latest_loop.simps)
    next
      case False
      with Cons.IH[OF rest, of l ld] obtain i where i: "i < length dps"
        "latest_loop l ld dps = Return (dps ! i)"
        "\<not> Before (tstamp (dps ! i)) l"
        "\<forall>j<length dps. tstamp (dps ! j) \<le> tstamp (dps ! i)"
        "\<forall>j<length dps. i < j \<longrightarrow> tstamp (dps ! j) < tstamp (dps ! i)"
        by auto
      have "Suc i < length (dp # dps)" using i(1) by simp
      moreover have "latest_loop l ld (dp # dps) = Return ((dp # dps) ! Suc i)"
        using i(2) step by (simp del: latest_loop.simps)
      moreover have "\<not> Before (tstamp ((dp # dps) ! Suc i)) l" using i(3) by simp
      moreover have "\<forall>j<length (dp # dps). tstamp ((dp # dps) ! j) \<le> tstamp ((dp # dps) ! Suc i)"
      proof (intro allI impI)
        fix j assume "j < length (dp # dps)"
        then show "tstamp ((dp # dps) ! j) \<le> tstamp ((dp # dps) ! Suc i)"
          using i(3,4) True tdp by (cases j) (auto simp: Before_def)
      qed
      moreover have "\<forall>j<length (dp # dps). Suc i < j \<longrightarrow> tstamp ((dp # dps) ! j) < tstamp ((dp # dps) ! Suc i)"
      proof (intro allI impI)
        fix j assume "j < length (dp # dps)" "Suc i < j"
        then show "tstamp ((dp # dps) ! j) < tstamp ((dp # dps) ! Suc i)"
          using i(5) by (cases j) auto
      qed
      moreover have "\<not> (\<forall>x\<in>set (dp # dps). Before (tstamp x) l)" using False by simp
      ultimately show ?thesis by (simp only: if_False) blast
    qed
  next
    case nb: False
    then have step: "latest_loop l ld (dp # dps) = latest_loop ts (Some d) dps"
      by (simp add: dp ts)
    have notall: "\<not> (\<forall>x\<in>set (dp # dps). Before (tstamp x) l)" using nb tdp by simp
    show ?thesis
    proof (cases "\<forall>x\<in>set dps. Before (tstamp x) ts")
      case all: True
      with Cons.IH[OF rest, of ts "Some d"] have r: "latest_loop ts (Some d) dps = Return (Some d)"
        by simp
      have "0 < length (dp # dps)" by simp
      moreover have "latest_loop l ld (dp # dps) = Return ((dp # dps) ! 0)"
        using r step dp by (simp del: latest_loop.simps)
      moreover have "\<not> Before (tstamp ((dp # dps) ! 0)) l" using nb tdp by simp
      moreover have "\<forall>j<length (dp # dps). tstamp ((dp # dps) ! j) \<le> tstamp ((dp # dps) ! 0)"
      proof (intro allI impI)
        fix j assume "j < length (dp # dps)"
        then show "tstamp ((dp # dps) ! j) \<le> tstamp ((dp # dps) ! 0)"
          using all tdp by (cases j) (auto simp: Before_def dest!: bspec[where x = "dps ! (j - 1)"])
      qed
      moreover have "\<forall>j<length (dp # dps). 0 < j \<longrightarrow> tstamp ((dp # dps) ! j) < tstamp ((dp # dps) ! 0)"
      proof (intro allI impI)
        fix j assume "j < length (dp # dps)" "0 < j"
        then show "tstamp ((dp # dps) ! j) < tstamp ((dp # dps) ! 0)"
          using all tdp by (cases j) (auto simp: Before_def)
      qed
      ultimately show ?thesis using notall by (simp only: if_False) blast
    next
      case False
      with Cons.IH[OF rest, of ts "Some d"] obtain i where i: "i < length dps"
        "latest_loop ts (Some d) dps = Return (dps ! i)"
        "\<not> Before (tstamp (dps ! i)) ts"
        "\<forall>j<length dps. tstamp (dps ! j) \<le> tstamp (dps ! i)"
        "\<forall>j<length dps. i < j \<longrightarrow> tstamp (dps ! j) < tstamp (dps ! i)"
        by auto
      have "Suc i < length (dp # dps)" using i(1) by simp
      moreover have "latest_loop l ld (dp # dps) = Return ((dp # dps) ! Suc i)"
        using i(2) step by (simp del: latest_loop.simps)
      moreover have "\<not> Before (tstamp ((dp # dps) ! Suc i)) l" using i(3) nb by (simp add: Before_def)
      moreover have "\<forall>j<length (dp # dps). tstamp ((dp # dps) ! j) \<le> tstamp ((dp # dps) ! Suc i)"
      proof (intro allI impI)
        fix j assume "j < length (dp # dps)"
        then show "tstamp ((dp # dps) ! j) \<le> tstamp ((dp # dps) ! Suc i)"
          using i(3,4) tdp by (cases j) (auto simp: Before_def)
      qed
      moreover have "\<forall>j<length (dp # dps). Suc i < j \<longrightarrow> tstamp ((dp # dps) ! j) < tstamp ((dp # dps) ! Suc i)"
      proof (intro allI impI)
        fix j assume "j < length (dp # dps)" "Suc i < j"
        then show "tstamp ((dp # dps) ! j) < tstamp ((dp # dps) ! Suc i)"
          using i(5) by (cases j) auto
      qed
      ultimately show ?thesis using notall by (simp only: if_False) blast
    qed
  qed
qed

lemma latest_loop_panic:
  "\<not> list_all has_timestamp dps \<Longrightarrow> latest_loop l ld dps = Panic"
  by (induction dps arbitrary: l ld) (auto simp: has_timestamp_def split: option.splits)

lemma getLastPointFromCloudWatch_response:
  assumes "time_Now rt w = (now, w1)"
    and "GetMetricStatistics rt (getMetricStatisticsInput fn g now) w1 = ((Some r, None), w2)"
    and "Datapoints r \<noteq> []"
  shows "getLastPointFromCloudWatch rt fn g w =
     (case latest_loop zeroTime None (Datapoints r) of
        Panic \<Rightarrow> (Panic, w2)
      | Return latestDp \<Rightarrow> (Return (Inr latestDp), w2))"
  using assms by (simp add: getLastPointFromCloudWatch_def)

lemma fetch_loop_append:
  "fetch_loop rt p (xs @ ys) stat w =
     (case fetch_loop rt p xs stat w of
        (Panic, w') \<Rightarrow> (Panic, w')
      | (Return s, w') \<Rightarrow> fetch_loop rt p ys s w')"
proof (induction xs arbitrary: stat w)
  case Nil
  then show ?case by simp
next
  case (Cons x xs)
  show ?case
    by (simp add: Cons.IH split: prod.splits exec.splits sum.splits)
qed

lemma merge_loop_nil_catalog:
  "g \<in> set catalog \<Longrightarrow> merge_loop None (Metrics g) stat = Panic"
  by (auto simp: catalog_def metricsTypeSum_def metricsTypeAverage_def
      metricsTypeMaximum_def metricsTypeMinimum_def)

text \<open>
  C1, as amended. When the client answers with datapoints that all carry a timestamp,
  and at least one timestamp is not before the zero time, \<open>getLastPointFromCloudWatch\<close>
  returns the datapoint at a position \<open>i\<close> whose timestamp is greater than or equal to
  every candidate's, and every candidate after position \<open>i\<close> has a strictly smaller
  timestamp: among the candidates that share the greatest timestamp, the last in
  iteration order is returned.
\<close>

theorem getLastPoint_selects_latest:
  assumes "time_Now rt w = (now, w1)"
    and "GetMetricStatistics rt (getMetricStatisticsInput fn g now) w1 = ((Some r, None), w2)"
    and "list_all has_timestamp (Datapoints r)"
    and "\<exists>dp\<in>set (Datapoints r). \<not> Before (tstamp dp) zeroTime"
  shows "\<exists>i<length (Datapoints r).
      getLastPointFromCloudWatch rt fn g w = (Return (Inr (Datapoints r ! i)), w2)
      \<and> (\<forall>j<length (Datapoints r). tstamp (Datapoints r ! j) \<le> tstamp (Datapoints r ! i))
      \<and> (\<forall>j<length (Datapoints r). i < j \<longrightarrow> tstamp (Datapoints r ! j) < tstamp (Datapoints r ! i))"
proof -
  from assms(4) have ne: "Datapoints r \<noteq> []" by auto
  from assms(4) have "\<not> (\<forall>dp\<in>set (Datapoints r). Before (tstamp dp) zeroTime)" by blast
  with latest_loop_spec[OF assms(3), of zeroTime None]
  have "\<exists>i<length (Datapoints r). latest_loop zeroTime None (Datapoints r) = Return (Datapoints r ! i)
             \<and> \<not> Before (tstamp (Datapoints r ! i)) zeroTime
             \<and> (\<forall>j<length (Datapoints r). tstamp (Datapoints r ! j) \<le> tstamp (Datapoints r ! i))
             \<and> (\<forall>j<length (Datapoints r). i < j \<longrightarrow> tstamp (Datapoints r ! j) < tstamp (Datapoints r ! i))"
    by (simp only: if_False)
  then obtain i where i: "i < length (Datapoints r)"
    "latest_loop zeroTime None (Datapoints r) = Return (Datapoints r ! i)"
    "\<forall>j<length (Datapoints r). tstamp (Datapoints r ! j) \<le> tstamp (Datapoints r ! i)"
    "\<forall>j<length (Datapoints r). i < j \<longrightarrow> tstamp (Datapoints r ! j) < tstamp (Datapoints r ! i)"
    by blast
  have "getLastPointFromCloudWatch rt fn g w = (Return (Inr (Datapoints r ! i)), w2)"
    by (simp add: getLastPointFromCloudWatch_response[OF assms(1,2) ne] i(2))
  with i show ?thesis by blast
qed

lemma mock_throttles:
  "GetMetricStatistics (mockCloudWatchClient 1000000000000)
       (getMetricStatisticsInput ''myFunction'' (catalog ! 2) 1000000000000) 0
     = ((Some \<lparr>Datapoints =
                 [Some \<lparr>Timestamp = Some 1000000000000, Average = None, Sum = Some 30,
                    Maximum = None, Minimum = None\<rparr>,
                  Some \<lparr>Timestamp = Some 1060000000000, Average = None,
                    Sum = Some 25, Maximum = None, Minimum = None\<rparr>,
                  Some \<lparr>Timestamp = Some 940000000000, Average = None,
                    Sum = Some 35, Maximum = None, Minimum = None\<rparr>]\<rparr>, None), 1)"
  by (simp add: mockCloudWatchClient_def getMetricStatisticsInput_def catalog_def
      metricsTypeSum_def Add_def Second_def)

theorem getLastPoint_selects_latest_witness:
  "time_Now (mockCloudWatchClient 1000000000000) 0 = (1000000000000, 0)
   \<and> GetMetricStatistics (mockCloudWatchClient 1000000000000)
       (getMetricStatisticsInput ''myFunction'' (catalog ! 2) 1000000000000) 0
     = ((Some \<lparr>Datapoints =
                 [Some \<lparr>Timestamp = Some 1000000000000, Average = None, Sum = Some 30,
                    Maximum = None, Minimum = None\<rparr>,
                  Some \<lparr>Timestamp = Some 1060000000000, Average = None,
                    Sum = Some 25, Maximum = None, Minimum = None\<rparr>,
                  Some \<lparr>Timestamp = Some 940000000000, Average = None,
                    Sum = Some 35, Maximum = None, Minimum = None\<rparr>]\<rparr>, None), 1)
   \<and> getLastPointFromCloudWatch (mockCloudWatchClient 1000000000000) ''myFunction''
        (catalog ! 2) 0
     = (Return (Inr (Some \<lparr>Timestamp = Some 1060000000000, Average = None,
                    Sum = Some 25, Maximum = None, Minimum = None\<rparr>)), 1)"
proof -
  let ?rt = "mockCloudWatchClient 1000000000000"
  let ?r = "\<lparr>Datapoints =
                 [Some \<lparr>Timestamp = Some 1000000000000, Average = None, Sum = Some (30::int),
                    Maximum = None, Minimum = None\<rparr>,
                  Some \<lparr>Timestamp = Some 1060000000000, Average = None,
                    Sum = Some 25, Maximum = None, Minimum = None\<rparr>,
                  Some \<lparr>Timestamp = Some 940000000000, Average = None,
                    Sum = Some 35, Maximum = None, Minimum = None\<rparr>]\<rparr>"
  have h1: "time_Now ?rt 0 = (1000000000000, 0)"
    by (simp add: mockCloudWatchClient_def)
  have h2: "GetMetricStatistics ?rt
       (getMetricStatisticsInput ''myFunction'' (catalog ! 2) 1000000000000) 0
     = ((Some ?r, None), 1)"
    by (rule mock_throttles)
  have h3: "list_all has_timestamp (Datapoints ?r)"
    by (simp add: has_timestamp_def)
  have h4: "\<exists>dp\<in>set (Datapoints ?r). \<not> Before (tstamp dp) zeroTime"
    by (simp add: tstamp_def Before_def zeroTime_def)
  from getLastPoint_selects_latest[OF h1 h2 h3 h4]
  obtain i where i1: "i < length (Datapoints ?r)"
    and i2: "getLastPointFromCloudWatch ?rt ''myFunction'' (catalog ! 2) 0
       = (Return (Inr (Datapoints ?r ! i)), 1)"
    and i3: "\<forall>j<length (Datapoints ?r). tstamp (Datapoints ?r ! j) \<le> tstamp (Datapoints ?r ! i)"
    by blast
  from i1 have "i < 3" by simp
  then consider "i = 0" | "i = 1" | "i = 2" by linarith
  then have "i = 1"
  proof cases
    case 1
    with i3[rule_format, of 1] show ?thesis by (simp add: tstamp_def)
  next
    case 2
    then show ?thesis .
  next
    case 3
    with i3[rule_format, of 1] show ?thesis by (simp add: tstamp_def)
  qed
  with i2 h1 h2 show ?thesis by simp
qed

text \<open>
  C1 as stated fails: for the one-element sequence whose timestamp is one nanosecond
  before the zero time, the selection returns nil, not a datapoint of the sequence.
\<close>

theorem selection_all_before_zero:
  "latest_loop zeroTime None
     [Some \<lparr>Timestamp = Some (- 1), Average = None, Sum = Some (35::int),
            Maximum = None, Minimum = None\<rparr>] = Return None"
  by (simp add: zeroTime_def Before_def)

text \<open>Two candidates share the greatest timestamp: the later one in the list is returned.\<close>

lemma selection_tie_example:
  "latest_loop zeroTime None
     [Some \<lparr>Timestamp = Some 5, Average = None, Sum = Some (1::int), Maximum = None, Minimum = None\<rparr>,
      Some \<lparr>Timestamp = Some 5, Average = None, Sum = Some 2, Maximum = None, Minimum = None\<rparr>,
      Some \<lparr>Timestamp = Some 3, Average = None, Sum = Some 3, Maximum = None, Minimum = None\<rparr>]
   = Return (Some \<lparr>Timestamp = Some 5, Average = None, Sum = Some 2, Maximum = None, Minimum = None\<rparr>)"
  by (simp add: zeroTime_def Before_def)

text \<open>
  C10. The best-so-far instant starts at the zero time. When the client answers with a
  non-empty list of datapoints whose timestamps are all strictly before the zero time,
  the loop never replaces its nil and \<open>getLastPointFromCloudWatch\<close> returns a nil
  datapoint with a nil error; \<open>FetchMetrics\<close>, reaching that group of the catalog, then
  dereferences the nil datapoint and panics. The datapoint returned is not nil only if
  some timestamp is not strictly before the zero time.
\<close>

theorem zero_time_sentinel:
  assumes "time_Now rt w = (now, w1)"
    and "GetMetricStatistics rt (getMetricStatisticsInput (FunctionName p) g now) w1
          = ((Some r, None), w2)"
    and "list_all has_timestamp (Datapoints r)"
  shows "(Datapoints r \<noteq> [] \<and> (\<forall>dp\<in>set (Datapoints r). Before (tstamp dp) zeroTime)
      \<longrightarrow> getLastPointFromCloudWatch rt (FunctionName p) g w = (Return (Inr None), w2)
        \<and> (\<forall>pre post w0 stat1. catalog = pre @ g # post
              \<and> fetch_loop rt p pre Map.empty w0 = (Return stat1, w)
            \<longrightarrow> FetchMetrics rt p w0 = (Panic, w2)))
    \<and> (\<forall>d. getLastPointFromCloudWatch rt (FunctionName p) g w = (Return (Inr (Some d)), w2)
      \<longrightarrow> (\<exists>dp\<in>set (Datapoints r). \<not> Before (tstamp dp) zeroTime))"
proof (intro conjI impI allI)
  assume a: "Datapoints r \<noteq> [] \<and> (\<forall>dp\<in>set (Datapoints r). Before (tstamp dp) zeroTime)"
  then have "latest_loop zeroTime None (Datapoints r) = Return None"
    using latest_loop_spec[OF assms(3), of zeroTime None] by simp
  then show nil: "getLastPointFromCloudWatch rt (FunctionName p) g w = (Return (Inr None), w2)"
    using a by (simp add: getLastPointFromCloudWatch_response[OF assms(1,2)])
  fix pre post w0 stat1
  assume b: "catalog = pre @ g # post \<and> fetch_loop rt p pre Map.empty w0 = (Return stat1, w)"
  then have b1: "catalog = pre @ g # post"
    and b2: "fetch_loop rt p pre Map.empty w0 = (Return stat1, w)" by simp_all
  from b1 have "set catalog = set (pre @ g # post)" by simp
  then have "g \<in> set catalog" by simp
  then have "merge_loop None (Metrics g) stat1 = Panic" by (rule merge_loop_nil_catalog)
  then have "fetch_loop rt p (g # post) stat1 w = (Panic, w2)"
    using nil by simp
  with b2 have "fetch_loop rt p (pre @ g # post) Map.empty w0 = (Panic, w2)"
    by (simp add: fetch_loop_append del: fetch_loop.simps)
  then show "FetchMetrics rt p w0 = (Panic, w2)"
    unfolding FetchMetrics_def b1 by simp
next
  fix d
  assume c: "getLastPointFromCloudWatch rt (FunctionName p) g w = (Return (Inr (Some d)), w2)"
  show "\<exists>dp\<in>set (Datapoints r). \<not> Before (tstamp dp) zeroTime"
  proof (rule ccontr)
    assume n: "\<not> (\<exists>dp\<in>set (Datapoints r). \<not> Before (tstamp dp) zeroTime)"
    then have "latest_loop zeroTime None (Datapoints r) = Return None"
      using latest_loop_spec[OF assms(3), of zeroTime None] by simp
    then show False
      using c assms(1,2) by (simp add: getLastPointFromCloudWatch_def split: if_splits)
  qed
qed

theorem zero_time_sentinel_witness:
  "getLastPointFromCloudWatch
      (fixedClient 1000000000000
        (Some \<lparr>Datapoints = [Some \<lparr>Timestamp = Some (- 1), Average = None,
           Sum = Some (35::int), Maximum = None, Minimum = None\<rparr>]\<rparr>, None :: string error option))
      ''myFunction'' (catalog ! 0) () = (Return (Inr None), ())
   \<and> FetchMetrics
      (fixedClient 1000000000000
        (Some \<lparr>Datapoints = [Some \<lparr>Timestamp = Some (- 1), Average = None,
           Sum = Some (35::int), Maximum = None, Minimum = None\<rparr>]\<rparr>, None :: string error option))
      \<lparr>FunctionName = ''myFunction'', Prefix = ''lambda'', AccessKeyID = [],
        SecretAccessKey = [], Region = []\<rparr> () = (Panic, ())"
proof -
  let ?r = "\<lparr>Datapoints = [Some \<lparr>Timestamp = Some (- 1), Average = None,
           Sum = Some (35::int), Maximum = None, Minimum = None\<rparr>]\<rparr>"
  let ?rt = "fixedClient 1000000000000 (Some ?r, None :: string error option)"
  let ?p = "\<lparr>FunctionName = ''myFunction'', Prefix = ''lambda'', AccessKeyID = [],
        SecretAccessKey = [], Region = []\<rparr>"
  have h1: "time_Now ?rt () = (1000000000000, ())"
    by (simp add: fixedClient_def)
  have h2: "GetMetricStatistics ?rt
      (getMetricStatisticsInput (FunctionName ?p) (catalog ! 0) 1000000000000) ()
      = ((Some ?r, None), ())"
    by (simp add: fixedClient_def)
  have h3: "list_all has_timestamp (Datapoints ?r)"
    by (simp add: has_timestamp_def)
  have h4: "Datapoints ?r \<noteq> [] \<and> (\<forall>dp\<in>set (Datapoints ?r). Before (tstamp dp) zeroTime)"
    by (simp add: tstamp_def Before_def zeroTime_def)
  have h5: "catalog = [] @ (catalog ! 0) # tl catalog
      \<and> fetch_loop ?rt ?p [] Map.empty () = (Return Map.empty, ())"
    by (simp add: catalog_def)
  from zero_time_sentinel[OF h1 h2 h3] h4
  have a: "getLastPointFromCloudWatch ?rt (FunctionName ?p) (catalog ! 0) () = (Return (Inr None), ())"
    and b: "\<forall>pre post w0 stat1. catalog = pre @ (catalog ! 0) # post
              \<and> fetch_loop ?rt ?p pre Map.empty w0 = (Return stat1, ())
            \<longrightarrow> FetchMetrics ?rt ?p w0 = (Panic, ())"
    by blast+
  from b h5 have "FetchMetrics ?rt ?p () = (Panic, ())" by blast
  with a show ?thesis by simp
qed

section \<open>Properties of the merge and of FetchMetrics\<close>

lemma map_upd_add_assoc: "m(k \<mapsto> x) ++ n = m ++ ([k \<mapsto> x] ++ n)"
  by (rule ext) (simp add: map_add_def split: option.splits)

lemma map_add_twice: "(m ++ n) ++ n = m ++ n"
  by (rule ext) (simp add: map_add_def split: option.splits)

lemma merge_loop_delta:
  "merge_loop v typs0 stat =
     (case merge_loop v typs0 Map.empty of Panic \<Rightarrow> Panic | Return m \<Rightarrow> Return (stat ++ m))"
proof (induction typs0 arbitrary: stat)
  case Nil
  show ?case by simp
next
  case (Cons m0 ms0)
  have step: "\<And>x. merge_loop v ms0 (stat(MackerelName m0 \<mapsto> x)) =
      (case merge_loop v ms0 [MackerelName m0 \<mapsto> x] of
         Panic \<Rightarrow> Panic | Return m \<Rightarrow> Return (stat ++ m))"
  proof -
    fix x
    have a: "merge_loop v ms0 (stat(MackerelName m0 \<mapsto> x)) =
      (case merge_loop v ms0 Map.empty of Panic \<Rightarrow> Panic
       | Return m \<Rightarrow> Return (stat(MackerelName m0 \<mapsto> x) ++ m))"
      by (rule Cons.IH)
    have b: "merge_loop v ms0 [MackerelName m0 \<mapsto> x] =
      (case merge_loop v ms0 Map.empty of Panic \<Rightarrow> Panic
       | Return m \<Rightarrow> Return ([MackerelName m0 \<mapsto> x] ++ m))"
      by (rule Cons.IH)
    show "merge_loop v ms0 (stat(MackerelName m0 \<mapsto> x)) =
      (case merge_loop v ms0 [MackerelName m0 \<mapsto> x] of
         Panic \<Rightarrow> Panic | Return m \<Rightarrow> Return (stat ++ m))"
      unfolding a b
      by (cases "merge_loop v ms0 Map.empty") (simp_all add: map_upd_add_assoc[symmetric])
  qed
  have rest: "merge_loop v ms0 stat =
      (case merge_loop v ms0 Map.empty of Panic \<Rightarrow> Panic | Return m \<Rightarrow> Return (stat ++ m))"
    by (rule Cons.IH)
  show ?case
  proof (cases v)
    case None
    then show ?thesis using rest by simp
  next
    case (Some d)
    show ?thesis
      unfolding merge_loop.simps(2) Some option.case
      by (cases "Average d"; cases "Sum d"; cases "Maximum d"; cases "Minimum d";
          simp only: option.case exec.case step[unfolded Some] rest[unfolded Some]; simp)
  qed
qed

text \<open>
  C7. Merging a group and a datapoint into the record that the same merge has produced
  gives that record again, and where the first merge panics so does the whole. Each
  write is an overwrite by output name: the merged record is the old one overridden by
  the values that the same merge writes into the empty record, so no prior value enters
  a written value.
\<close>

theorem merge_loop_idempotent:
  "(case merge_loop v typs0 stat of Panic \<Rightarrow> Panic | Return stat' \<Rightarrow> merge_loop v typs0 stat')
     = merge_loop v typs0 stat
   \<and> merge_loop v typs0 stat =
     (case merge_loop v typs0 Map.empty of Panic \<Rightarrow> Panic | Return m \<Rightarrow> Return (stat ++ m))"
proof
  show "(case merge_loop v typs0 stat of Panic \<Rightarrow> Panic | Return stat' \<Rightarrow> merge_loop v typs0 stat')
     = merge_loop v typs0 stat"
  proof (cases "merge_loop v typs0 Map.empty")
    case Panic
    then show ?thesis using merge_loop_delta[of v typs0 stat] by simp
  next
    case (Return m)
    then have a: "merge_loop v typs0 stat = Return (stat ++ m)"
      using merge_loop_delta[of v typs0 stat] by simp
    have "merge_loop v typs0 (stat ++ m) = Return ((stat ++ m) ++ m)"
      using merge_loop_delta[of v typs0 "stat ++ m"] Return by simp
    then show ?thesis using a by (simp add: map_add_twice)
  qed
  show "merge_loop v typs0 stat =
     (case merge_loop v typs0 Map.empty of Panic \<Rightarrow> Panic | Return m \<Rightarrow> Return (stat ++ m))"
    by (rule merge_loop_delta)
qed

lemma merge_loop_step:
  assumes "merge_loop v (m0 # ms0) stat = Return s"
  shows "merge_loop v ms0 stat = Return s
    \<or> (\<exists>x. merge_loop v ms0 (stat(MackerelName m0 \<mapsto> Float64 x)) = Return s)"
  using assms by (auto split: if_splits option.splits)

lemma merge_loop_dom:
  "merge_loop v typs stat = Return s \<Longrightarrow> dom s \<subseteq> dom stat \<union> set (map MackerelName typs)"
proof (induction typs arbitrary: stat)
  case Nil
  then show ?case by simp
next
  case (Cons m0 ms0)
  from merge_loop_step[OF Cons.prems] show ?case
  proof
    assume "merge_loop v ms0 stat = Return s"
    from Cons.IH[OF this] show ?thesis by auto
  next
    assume "\<exists>x. merge_loop v ms0 (stat(MackerelName m0 \<mapsto> Float64 x)) = Return s"
    then obtain x where "merge_loop v ms0 (stat(MackerelName m0 \<mapsto> Float64 x)) = Return s" ..
    from Cons.IH[OF this] show ?thesis by auto
  qed
qed

lemma float64_record_upd:
  "float64_record stat \<Longrightarrow> float64_record (stat(k \<mapsto> Float64 x))"
  by (simp add: float64_record_def float64_at_def)

lemma merge_loop_float64:
  "merge_loop v typs stat = Return s \<Longrightarrow> float64_record stat \<Longrightarrow> float64_record s"
proof (induction typs arbitrary: stat)
  case Nil
  then show ?case by simp
next
  case (Cons m0 ms0)
  from merge_loop_step[OF Cons.prems(1)] show ?case
  proof
    assume "merge_loop v ms0 stat = Return s"
    from Cons.IH[OF this Cons.prems(2)] show ?thesis .
  next
    assume "\<exists>x. merge_loop v ms0 (stat(MackerelName m0 \<mapsto> Float64 x)) = Return s"
    then obtain x where "merge_loop v ms0 (stat(MackerelName m0 \<mapsto> Float64 x)) = Return s" ..
    from Cons.IH[OF this float64_record_upd[OF Cons.prems(2)]] show ?thesis .
  qed
qed

lemma fetch_loop_step:
  assumes "fetch_loop rt p (g # gs) stat w = (Return s, w')"
  shows "\<exists>stat' w1. fetch_loop rt p gs stat' w1 = (Return s, w')
     \<and> (stat' = stat \<or> (\<exists>v. merge_loop v (Metrics g) stat = Return stat'))"
  using assms by (auto split: prod.splits exec.splits sum.splits)

lemma fetch_loop_dom:
  "fetch_loop rt p gs stat w = (Return s, w') \<Longrightarrow>
     dom s \<subseteq> dom stat \<union> set (concat (map output_names gs))"
proof (induction gs arbitrary: stat w)
  case Nil
  then show ?case by simp
next
  case (Cons g gs)
  from fetch_loop_step[OF Cons.prems] obtain stat' w1
    where run: "fetch_loop rt p gs stat' w1 = (Return s, w')"
      and st: "stat' = stat \<or> (\<exists>v. merge_loop v (Metrics g) stat = Return stat')"
    by blast
  from st have "dom stat' \<subseteq> dom stat \<union> set (output_names g)"
  proof
    assume "stat' = stat"
    then show ?thesis by simp
  next
    assume "\<exists>v. merge_loop v (Metrics g) stat = Return stat'"
    then obtain v where "merge_loop v (Metrics g) stat = Return stat'" ..
    from merge_loop_dom[OF this] show ?thesis by (simp add: output_names_def)
  qed
  with Cons.IH[OF run] show ?case by auto
qed

lemma fetch_loop_float64:
  "fetch_loop rt p gs stat w = (Return s, w') \<Longrightarrow> float64_record stat \<Longrightarrow> float64_record s"
proof (induction gs arbitrary: stat w)
  case Nil
  then show ?case by simp
next
  case (Cons g gs)
  from fetch_loop_step[OF Cons.prems(1)] obtain stat' w1
    where run: "fetch_loop rt p gs stat' w1 = (Return s, w')"
      and st: "stat' = stat \<or> (\<exists>v. merge_loop v (Metrics g) stat = Return stat')"
    by blast
  from st Cons.prems(2) have "float64_record stat'"
    by (auto dest: merge_loop_float64)
  with Cons.IH[OF run] show ?case .
qed

lemma float64_record_empty: "float64_record Map.empty"
  by (simp add: float64_record_def float64_at_def)

lemma catalog_output_names:
  "concat (map output_names catalog) =
     [''TEMPORARY_invocations_total'', ''invocations_error'', ''invocations_throttles'',
      ''duration_avg'', ''duration_max'', ''duration_min'']"
  by (simp add: catalog_def output_names_def)

text \<open>
  C6. Every key of the record that \<open>FetchMetrics\<close> returns is one of
  \<open>invocations_success\<close>, \<open>invocations_error\<close>, \<open>invocations_throttles\<close>, \<open>duration_avg\<close>,
  \<open>duration_max\<close>, \<open>duration_min\<close>; every value is a \<open>float64\<close>; the error returned with
  the record is nil.
\<close>

theorem FetchMetrics_keys:
  assumes "FetchMetrics rt p w = (Return (r, e), w')"
  shows "dom r \<subseteq> {''invocations_success'', ''invocations_error'', ''invocations_throttles'',
            ''duration_avg'', ''duration_max'', ''duration_min''}
    \<and> (\<forall>k v. r k = Some v \<longrightarrow> (\<exists>x. v = Float64 x))
    \<and> e = None"
proof -
  from assms obtain s where s: "fetch_loop rt p catalog Map.empty w = (Return s, w')"
    and r: "r = TransformMetrics s" and e: "e = None"
    by (auto simp: FetchMetrics_def split: prod.splits exec.splits)
  have fs: "float64_record s"
    using fetch_loop_float64[OF s float64_record_empty] .
  have ds: "dom s \<subseteq> set (concat (map output_names catalog))"
    using fetch_loop_dom[OF s] by simp
  have fr: "float64_record r"
    unfolding r using fs by (rule TransformMetrics_float64_record)
  have dr: "dom r \<subseteq> (dom s - {''TEMPORARY_invocations_total''}) \<union> {''invocations_success''}"
    unfolding r using fs by (rule TransformMetrics_dom)
  have d: "dom r \<subseteq> {''invocations_success'', ''invocations_error'',
      ''invocations_throttles'', ''duration_avg'', ''duration_max'', ''duration_min''}"
  proof
    fix k assume "k \<in> dom r"
    with dr have "k = ''invocations_success''
        \<or> (k \<in> dom s \<and> k \<noteq> ''TEMPORARY_invocations_total'')" by blast
    with ds have "k = ''invocations_success''
        \<or> (k \<in> set (concat (map output_names catalog)) \<and> k \<noteq> ''TEMPORARY_invocations_total'')"
      by blast
    then show "k \<in> {''invocations_success'', ''invocations_error'',
      ''invocations_throttles'', ''duration_avg'', ''duration_max'', ''duration_min''}"
      unfolding catalog_output_names by auto
  qed
  have v: "\<forall>k v. r k = Some v \<longrightarrow> (\<exists>x. v = Float64 x)"
  proof (intro allI impI)
    fix k v assume "r k = Some v"
    with fr[unfolded float64_record_def float64_at_def, rule_format, of k] show "\<exists>x. v = Float64 x"
      by (cases v) simp_all
  qed
  from d v e show ?thesis by blast
qed

lemma mock_run:
  "fetch_loop (mockCloudWatchClient 1000000000000)
      \<lparr>FunctionName = ''myFunction'', Prefix = ''lambda'', AccessKeyID = [],
        SecretAccessKey = [], Region = []\<rparr> catalog Map.empty 0
    = (Return [''TEMPORARY_invocations_total'' \<mapsto> Float64 25,
          ''invocations_error'' \<mapsto> Float64 25,
          ''invocations_throttles'' \<mapsto> Float64 25,
          ''duration_avg'' \<mapsto> Float64 25,
          ''duration_max'' \<mapsto> Float64 45,
          ''duration_min'' \<mapsto> Float64 5], 4)"
  by (simp add: catalog_def getLastPointFromCloudWatch_def getMetricStatisticsInput_def
      mockCloudWatchClient_def metricsTypeSum_def metricsTypeAverage_def
      metricsTypeMaximum_def metricsTypeMinimum_def namespace_def
      Add_def Second_def zeroTime_def Before_def)

theorem FetchMetrics_keys_witness:
  "FetchMetrics (mockCloudWatchClient 1000000000000)
      \<lparr>FunctionName = ''myFunction'', Prefix = ''lambda'', AccessKeyID = [],
        SecretAccessKey = [], Region = []\<rparr> 0
    = (Return (TransformMetrics
         [''TEMPORARY_invocations_total'' \<mapsto> Float64 25,
          ''invocations_error'' \<mapsto> Float64 25,
          ''invocations_throttles'' \<mapsto> Float64 25,
          ''duration_avg'' \<mapsto> Float64 25,
          ''duration_max'' \<mapsto> Float64 45,
          ''duration_min'' \<mapsto> Float64 5], None), 4)
   \<and> dom (TransformMetrics
         [''TEMPORARY_invocations_total'' \<mapsto> Float64 (25::int),
          ''invocations_error'' \<mapsto> Float64 25,
          ''invocations_throttles'' \<mapsto> Float64 25,
          ''duration_avg'' \<mapsto> Float64 25,
          ''duration_max'' \<mapsto> Float64 45,
          ''duration_min'' \<mapsto> Float64 5])
      \<subseteq> {''invocations_success'', ''invocations_error'', ''invocations_throttles'',
            ''duration_avg'', ''duration_max'', ''duration_min''}"
proof -
  have h: "FetchMetrics (mockCloudWatchClient 1000000000000)
      \<lparr>FunctionName = ''myFunction'', Prefix = ''lambda'', AccessKeyID = [],
        SecretAccessKey = [], Region = []\<rparr> 0
    = (Return (TransformMetrics
         [''TEMPORARY_invocations_total'' \<mapsto> Float64 25,
          ''invocations_error'' \<mapsto> Float64 25,
          ''invocations_throttles'' \<mapsto> Float64 25,
          ''duration_avg'' \<mapsto> Float64 25,
          ''duration_max'' \<mapsto> Float64 45,
          ''duration_min'' \<mapsto> Float64 5], None), 4)"
    unfolding FetchMetrics_def mock_run by simp
  from h conjunct1[OF FetchMetrics_keys[OF h]] show ?thesis by (rule conjI)
qed

lemma TransformMetrics_absent_key:
  "k \<noteq> ''invocations_success'' \<Longrightarrow> stats k = None \<Longrightarrow> TransformMetrics stats k = None"
  by (simp add: TransformMetrics_def split: option.splits interface.splits)

lemma catalog_split_names:
  assumes "catalog = pre @ g # post" and "k \<in> set (output_names g)"
  shows "k \<notin> set (concat (map output_names pre))"
    and "k \<notin> set (concat (map output_names post))"
    and "k \<noteq> ''invocations_success''"
proof -
  have d: "distinct (concat (map output_names catalog))"
    and n: "''invocations_success'' \<notin> set (concat (map output_names catalog))"
    unfolding catalog_output_names by simp_all
  have c: "concat (map output_names catalog) =
      concat (map output_names pre) @ output_names g @ concat (map output_names post)"
    unfolding assms(1) by simp
  from d[unfolded c] assms(2) show "k \<notin> set (concat (map output_names pre))"
    and "k \<notin> set (concat (map output_names post))"
    by auto
  from n[unfolded c] assms(2) show "k \<noteq> ''invocations_success''"
    by auto
qed

text \<open>
  C4. Let the catalog be \<open>pre\<close>, then the group \<open>g\<close>, then \<open>post\<close>; let the groups of
  \<open>pre\<close> have been processed and the fetch of \<open>g\<close> return an error, whichever it is. Then
  the run goes on as the loop over \<open>post\<close> from the record as it stood before \<open>g\<close> (the
  error is logged, nothing is written), followed by \<open>TransformMetrics\<close>: the failed fetch
  neither ends the loop nor makes \<open>FetchMetrics\<close> return an error. In the record returned
  no output name of \<open>g\<close> has a value.
\<close>

theorem FetchMetrics_skips_failed_group:
  assumes "catalog = pre @ g # post"
    and "fetch_loop rt p pre Map.empty w0 = (Return stat1, w1)"
    and "getLastPointFromCloudWatch rt (FunctionName p) g w1 = (Return (Inl err), w2)"
  shows "FetchMetrics rt p w0 =
      (case fetch_loop rt p post stat1 (log_Printf rt g err w2) of
         (Panic, w') \<Rightarrow> (Panic, w')
       | (Return stat, w') \<Rightarrow> (Return (TransformMetrics stat, None), w'))
    \<and> (\<forall>r e w'. FetchMetrics rt p w0 = (Return (r, e), w')
          \<longrightarrow> (\<forall>k\<in>set (output_names g). r k = None))"
proof (intro conjI allI impI ballI)
  have "fetch_loop rt p (g # post) stat1 w1 = fetch_loop rt p post stat1 (log_Printf rt g err w2)"
    using assms(3) by simp
  then have loop: "fetch_loop rt p (pre @ g # post) Map.empty w0
      = fetch_loop rt p post stat1 (log_Printf rt g err w2)"
    using assms(2) by (simp add: fetch_loop_append del: fetch_loop.simps)
  show run: "FetchMetrics rt p w0 =
      (case fetch_loop rt p post stat1 (log_Printf rt g err w2) of
         (Panic, w') \<Rightarrow> (Panic, w')
       | (Return stat, w') \<Rightarrow> (Return (TransformMetrics stat, None), w'))"
    unfolding FetchMetrics_def assms(1) loop ..
  fix r e w' k
  assume ret: "FetchMetrics rt p w0 = (Return (r, e), w')"
    and k: "k \<in> set (output_names g)"
  from ret[unfolded run] obtain s
    where s: "fetch_loop rt p post stat1 (log_Printf rt g err w2) = (Return s, w')"
      and r: "r = TransformMetrics s"
    by (auto split: prod.splits exec.splits)
  have "dom stat1 \<subseteq> set (concat (map output_names pre))"
    using fetch_loop_dom[OF assms(2)] by simp
  with fetch_loop_dom[OF s]
  have "dom s \<subseteq> set (concat (map output_names pre)) \<union> set (concat (map output_names post))"
    by blast
  with catalog_split_names(1,2)[OF assms(1) k] have "s k = None" by blast
  with catalog_split_names(3)[OF assms(1) k] show "r k = None"
    unfolding r by (simp add: TransformMetrics_absent_key)
qed

lemma failing_run_head:
  "fetch_loop (failingClient ''Errors'' (error_of ''timeout'') (mockCloudWatchClient 1000000000000))
      \<lparr>FunctionName = ''myFunction'', Prefix = ''lambda'', AccessKeyID = [],
        SecretAccessKey = [], Region = []\<rparr> [catalog ! 0] Map.empty 0
    = (Return [''TEMPORARY_invocations_total'' \<mapsto> Float64 25], 1)"
  by (simp add: catalog_def getLastPointFromCloudWatch_def getMetricStatisticsInput_def
      mockCloudWatchClient_def failingClient_def metricsTypeSum_def metricsTypeAverage_def namespace_def
      Add_def Second_def zeroTime_def Before_def)

lemma failing_run_errors:
  "getLastPointFromCloudWatch
      (failingClient ''Errors'' (error_of ''timeout'') (mockCloudWatchClient 1000000000000))
      ''myFunction'' (catalog ! 1) 1
    = (Return (Inl (error_of ''timeout'')), 1)"
  by (simp add: catalog_def getLastPointFromCloudWatch_def getMetricStatisticsInput_def
      mockCloudWatchClient_def failingClient_def)

lemma failing_run_tail:
  "fetch_loop (failingClient ''Errors'' (error_of ''timeout'') (mockCloudWatchClient 1000000000000))
      \<lparr>FunctionName = ''myFunction'', Prefix = ''lambda'', AccessKeyID = [],
        SecretAccessKey = [], Region = []\<rparr> [catalog ! 2, catalog ! 3]
      [''TEMPORARY_invocations_total'' \<mapsto> Float64 25] 1
    = (Return [''TEMPORARY_invocations_total'' \<mapsto> Float64 25,
          ''invocations_throttles'' \<mapsto> Float64 25,
          ''duration_avg'' \<mapsto> Float64 25,
          ''duration_max'' \<mapsto> Float64 45,
          ''duration_min'' \<mapsto> Float64 5], 3)"
  by (simp add: catalog_def getLastPointFromCloudWatch_def getMetricStatisticsInput_def
      mockCloudWatchClient_def failingClient_def metricsTypeSum_def metricsTypeAverage_def
      metricsTypeMaximum_def metricsTypeMinimum_def namespace_def
      Add_def Second_def zeroTime_def Before_def)

theorem FetchMetrics_skips_failed_group_witness:
  "catalog = [catalog ! 0] @ (catalog ! 1) # [catalog ! 2, catalog ! 3]
   \<and> FetchMetrics (failingClient ''Errors'' (error_of ''timeout'') (mockCloudWatchClient 1000000000000))
      \<lparr>FunctionName = ''myFunction'', Prefix = ''lambda'', AccessKeyID = [],
        SecretAccessKey = [], Region = []\<rparr> 0
    = (Return (TransformMetrics
         [''TEMPORARY_invocations_total'' \<mapsto> Float64 25,
          ''invocations_throttles'' \<mapsto> Float64 25,
          ''duration_avg'' \<mapsto> Float64 25,
          ''duration_max'' \<mapsto> Float64 45,
          ''duration_min'' \<mapsto> Float64 5], None), 3)
   \<and> TransformMetrics
         [''TEMPORARY_invocations_total'' \<mapsto> Float64 (25::int),
          ''invocations_throttles'' \<mapsto> Float64 25,
          ''duration_avg'' \<mapsto> Float64 25,
          ''duration_max'' \<mapsto> Float64 45,
          ''duration_min'' \<mapsto> Float64 5] ''invocations_error'' = None"
proof -
  let ?rt = "failingClient ''Errors'' (error_of ''timeout'') (mockCloudWatchClient 1000000000000)"
  let ?p = "\<lparr>FunctionName = ''myFunction'', Prefix = ''lambda'', AccessKeyID = [],
        SecretAccessKey = [], Region = []\<rparr>"
  have h1: "catalog = [catalog ! 0] @ (catalog ! 1) # [catalog ! 2, catalog ! 3]"
    by (simp add: catalog_def)
  have h3: "getLastPointFromCloudWatch ?rt (FunctionName ?p) (catalog ! 1) 1
      = (Return (Inl (error_of ''timeout'')), 1)"
    using failing_run_errors by simp
  have lg: "log_Printf ?rt (catalog ! 1) (error_of ''timeout'') 1 = 1"
    by (simp add: failingClient_def mockCloudWatchClient_def)
  note t = FetchMetrics_skips_failed_group[OF h1 failing_run_head h3]
  from conjunct1[OF t] have run: "FetchMetrics ?rt ?p 0 = (Return (TransformMetrics
         [''TEMPORARY_invocations_total'' \<mapsto> Float64 25,
          ''invocations_throttles'' \<mapsto> Float64 25,
          ''duration_avg'' \<mapsto> Float64 25,
          ''duration_max'' \<mapsto> Float64 45,
          ''duration_min'' \<mapsto> Float64 5], None), 3)"
    unfolding lg failing_run_tail by simp
  from conjunct2[OF t, rule_format, OF run, of "''invocations_error''"]
  have "TransformMetrics
         [''TEMPORARY_invocations_total'' \<mapsto> Float64 (25::int),
          ''invocations_throttles'' \<mapsto> Float64 25,
          ''duration_avg'' \<mapsto> Float64 25,
          ''duration_max'' \<mapsto> Float64 45,
          ''duration_min'' \<mapsto> Float64 5] ''invocations_error'' = None"
    by (simp add: output_names_def catalog_def)
  with h1 run show ?thesis by (intro conjI)
qed

theorem merge_loop_idempotent_witness:
  "merge_loop
     (Some \<lparr>Timestamp = Some 1000, Average = Some (25::int), Sum = Some 500,
        Maximum = Some 45, Minimum = Some 5\<rparr>)
     (Metrics (catalog ! 3)) [''duration_avg'' \<mapsto> Float64 7]
   = Return [''duration_avg'' \<mapsto> Float64 25, ''duration_max'' \<mapsto> Float64 45,
       ''duration_min'' \<mapsto> Float64 5]
   \<and> merge_loop
     (Some \<lparr>Timestamp = Some 1000, Average = Some (25::int), Sum = Some 500,
        Maximum = Some 45, Minimum = Some 5\<rparr>)
     (Metrics (catalog ! 3))
     [''duration_avg'' \<mapsto> Float64 25, ''duration_max'' \<mapsto> Float64 45,
       ''duration_min'' \<mapsto> Float64 5]
   = Return [''duration_avg'' \<mapsto> Float64 25, ''duration_max'' \<mapsto> Float64 45,
       ''duration_min'' \<mapsto> Float64 5]"
proof -
  let ?v = "Some \<lparr>Timestamp = Some 1000, Average = Some (25::int), Sum = Some 500,
        Maximum = Some 45, Minimum = Some 5\<rparr>"
  have a: "merge_loop ?v (Metrics (catalog ! 3)) [''duration_avg'' \<mapsto> Float64 7]
      = Return [''duration_avg'' \<mapsto> Float64 25, ''duration_max'' \<mapsto> Float64 45,
          ''duration_min'' \<mapsto> Float64 5]"
    by (simp add: catalog_def metricsTypeSum_def metricsTypeAverage_def
        metricsTypeMaximum_def metricsTypeMinimum_def)
  from conjunct1[OF merge_loop_idempotent
      [of ?v "Metrics (catalog ! 3)" "[''duration_avg'' \<mapsto> Float64 7]"]]
  have "merge_loop ?v (Metrics (catalog ! 3))
       [''duration_avg'' \<mapsto> Float64 25, ''duration_max'' \<mapsto> Float64 45,
         ''duration_min'' \<mapsto> Float64 5]
     = Return [''duration_avg'' \<mapsto> Float64 25, ''duration_max'' \<mapsto> Float64 45,
         ''duration_min'' \<mapsto> Float64 5]"
    unfolding a by simp
  with a show ?thesis by (rule conjI)
qed

text \<open>
  The counterpart for a group whose fetch returned a datapoint, in a run that returns:
  each of its output names has a value in the record returned, the total appearing as
  the success value.
\<close>

lemma merge_loop_mono:
  assumes "merge_loop v typs stat = Return s"
  shows "dom stat \<subseteq> dom s"
proof -
  from assms merge_loop_delta[of v typs stat] obtain m where "s = stat ++ m"
    by (cases "merge_loop v typs Map.empty") auto
  then show ?thesis by auto
qed

lemma merge_loop_writes:
  "merge_loop v typs stat = Return s \<Longrightarrow> m \<in> set typs \<Longrightarrow>
     Type m \<in> {metricsTypeAverage, metricsTypeSum, metricsTypeMaximum, metricsTypeMinimum} \<Longrightarrow>
     MackerelName m \<in> dom s"
proof (induction typs arbitrary: stat)
  case Nil
  then show ?case by simp
next
  case (Cons m0 ms0)
  show ?case
  proof (cases "m \<in> set ms0")
    case True
    from merge_loop_step[OF Cons.prems(1)] show ?thesis
    proof
      assume "merge_loop v ms0 stat = Return s"
      from Cons.IH[OF this True Cons.prems(3)] show ?thesis .
    next
      assume "\<exists>x. merge_loop v ms0 (stat(MackerelName m0 \<mapsto> Float64 x)) = Return s"
      then obtain x where "merge_loop v ms0 (stat(MackerelName m0 \<mapsto> Float64 x)) = Return s" ..
      from Cons.IH[OF this True Cons.prems(3)] show ?thesis .
    qed
  next
    case False
    with Cons.prems(2) have m: "m = m0" by simp
    from Cons.prems(1,3) obtain x
      where "merge_loop v ms0 (stat(MackerelName m0 \<mapsto> Float64 x)) = Return s"
      unfolding m by (auto split: if_splits option.splits)
    from merge_loop_mono[OF this] show ?thesis unfolding m by auto
  qed
qed

lemma fetch_loop_mono:
  "fetch_loop rt p gs stat w = (Return s, w') \<Longrightarrow> dom stat \<subseteq> dom s"
proof (induction gs arbitrary: stat w)
  case Nil
  then show ?case by simp
next
  case (Cons g gs)
  from fetch_loop_step[OF Cons.prems] obtain stat' w1
    where run: "fetch_loop rt p gs stat' w1 = (Return s, w')"
      and st: "stat' = stat \<or> (\<exists>v. merge_loop v (Metrics g) stat = Return stat')"
    by blast
  from st have "dom stat \<subseteq> dom stat'"
  proof
    assume "stat' = stat"
    then show ?thesis by simp
  next
    assume "\<exists>v. merge_loop v (Metrics g) stat = Return stat'"
    then obtain v where "merge_loop v (Metrics g) stat = Return stat'" ..
    then show ?thesis by (rule merge_loop_mono)
  qed
  with Cons.IH[OF run] show ?case by blast
qed

lemma catalog_types:
  "g \<in> set catalog \<Longrightarrow> m \<in> set (Metrics g) \<Longrightarrow>
     Type m \<in> {metricsTypeAverage, metricsTypeSum, metricsTypeMaximum, metricsTypeMinimum}"
  by (auto simp: catalog_def)

lemma FetchMetrics_keeps_fetched_group:
  assumes "catalog = pre @ g # post"
    and "fetch_loop rt p pre Map.empty w0 = (Return stat1, w1)"
    and "getLastPointFromCloudWatch rt (FunctionName p) g w1 = (Return (Inr v), w2)"
    and "FetchMetrics rt p w0 = (Return (r, e), w')"
    and "k \<in> set (output_names g)"
  shows "if k = ''TEMPORARY_invocations_total'' then r ''invocations_success'' \<noteq> None
         else r k \<noteq> None"
proof -
  from assms(4) obtain s where s: "fetch_loop rt p catalog Map.empty w0 = (Return s, w')"
    and r: "r = TransformMetrics s"
    by (auto simp: FetchMetrics_def split: prod.splits exec.splits)
  from s have "fetch_loop rt p (g # post) stat1 w1 = (Return s, w')"
    unfolding assms(1) using assms(2) by (simp add: fetch_loop_append del: fetch_loop.simps)
  with assms(3) obtain stat2 where m: "merge_loop v (Metrics g) stat1 = Return stat2"
    and t: "fetch_loop rt p post stat2 w2 = (Return s, w')"
    by (auto split: exec.splits)
  from assms(1) have "set catalog = set (pre @ g # post)" by simp
  then have g: "g \<in> set catalog" by simp
  from assms(5) obtain m0 where m0: "m0 \<in> set (Metrics g)" and k: "k = MackerelName m0"
    by (auto simp: output_names_def)
  from merge_loop_writes[OF m m0 catalog_types[OF g m0]] have "k \<in> dom stat2"
    unfolding k .
  with fetch_loop_mono[OF t] have ks: "k \<in> dom s" by blast
  have fs: "float64_record s"
    using fetch_loop_float64[OF s float64_record_empty] .
  show ?thesis
  proof (cases "k = ''TEMPORARY_invocations_total''")
    case True
    with ks fs[unfolded float64_record_def float64_at_def, rule_format, of k]
    obtain t where "s ''TEMPORARY_invocations_total'' = Some (Float64 t)"
      by (auto split: interface.splits)
    then have "TransformMetrics s ''invocations_success'' \<noteq> None"
      by (simp add: TransformMetrics_def split: option.splits interface.splits)
    with True show ?thesis unfolding r by simp
  next
    case False
    from catalog_split_names(3)[OF assms(1,5)] False
    have "TransformMetrics s k = s k" by (simp add: TransformMetrics_other_keys)
    with ks False show ?thesis unfolding r by auto
  qed
qed

section \<open>Errors and requests of getLastPointFromCloudWatch\<close>




lemma recording_getLastPoint:
  "getLastPointFromCloudWatch (recording rt) fn g (w, reqs) =
     (fst (getLastPointFromCloudWatch rt fn g w),
      snd (getLastPointFromCloudWatch rt fn g w),
      reqs @ [\<lparr>Dimensions = [\<lparr>Name = ''FunctionName'', Value = fn\<rparr>],
               StartTime = fst (time_Now rt w) - 180 * 1000000000,
               EndTime = fst (time_Now rt w),
               MetricName = CloudWatchName g,
               Period = 600,
               Statistics = map Type (Metrics g),
               Namespace = ''AWS/Lambda''\<rparr>])"
  by (simp add: getLastPointFromCloudWatch_def recording_def getMetricStatisticsInput_def
      Add_def Second_def namespace_def
      split: prod.splits option.splits exec.splits)

text \<open>
  C9, as amended. Every call of \<open>getLastPointFromCloudWatch\<close> makes one request of the
  client, and nothing else of what it does changes under the recording. The request has
  the single dimension \<open>FunctionName\<close> with the function name given, the start time 180
  seconds before \<open>now\<close> and the end time \<open>now\<close>, the period 600, the namespace
  \<open>AWS/Lambda\<close>, the group's CloudWatch name, and as statistics the types of the group's
  metrics in their order. \<open>now\<close> is what \<open>time.Now()\<close> gives at the start of that call:
  the call reads the clock itself, and no instant is handed to it.
\<close>

theorem getLastPoint_request:
  "getLastPointFromCloudWatch (recording rt) fn g (w, reqs) =
     (fst (getLastPointFromCloudWatch rt fn g w),
      snd (getLastPointFromCloudWatch rt fn g w),
      reqs @ [\<lparr>Dimensions = [\<lparr>Name = ''FunctionName'', Value = fn\<rparr>],
               StartTime = fst (time_Now rt w) - 180 * 1000000000,
               EndTime = fst (time_Now rt w),
               MetricName = CloudWatchName g,
               Period = 600,
               Statistics = map Type (Metrics g),
               Namespace = ''AWS/Lambda''\<rparr>])"
  by (rule recording_getLastPoint)

theorem getLastPoint_request_witness:
  "getLastPointFromCloudWatch (recording (mockCloudWatchClient 1000000000000))
      ''myFunction'' (catalog ! 3) (0, [])
    = (Return (Inr (Some \<lparr>Timestamp = Some 1060000000000, Average = Some 25,
          Sum = None, Maximum = Some 45, Minimum = Some 5\<rparr>)),
       1,
       [\<lparr>Dimensions = [\<lparr>Name = ''FunctionName'', Value = ''myFunction''\<rparr>],
         StartTime = 820000000000,
         EndTime = 1000000000000,
         MetricName = ''Duration'',
         Period = 600,
         Statistics = [''Average'', ''Maximum'', ''Minimum''],
         Namespace = ''AWS/Lambda''\<rparr>])"
proof -
  have a: "getLastPointFromCloudWatch (mockCloudWatchClient 1000000000000)
      ''myFunction'' (catalog ! 3) 0
    = (Return (Inr (Some \<lparr>Timestamp = Some 1060000000000, Average = Some 25,
          Sum = None, Maximum = Some 45, Minimum = Some 5\<rparr>)), 1)"
    by (simp add: catalog_def getLastPointFromCloudWatch_def getMetricStatisticsInput_def
      mockCloudWatchClient_def metricsTypeAverage_def
      metricsTypeMaximum_def metricsTypeMinimum_def namespace_def
      Add_def Second_def zeroTime_def Before_def)
  have b: "time_Now (mockCloudWatchClient 1000000000000) 0 = (1000000000000, 0)"
    by (simp add: mockCloudWatchClient_def)
  show ?thesis
    unfolding getLastPoint_request a b
    by (simp add: catalog_def metricsTypeAverage_def metricsTypeMaximum_def
        metricsTypeMinimum_def)
qed

text \<open>
  C9 as stated fails in its last clause: \<open>now\<close> is not an instant handed to the fetches.
  Under a clock that advances at each reading, the four requests of one run of
  \<open>FetchMetrics\<close> end at four different instants, each 180 seconds after its own start.
\<close>

theorem fetches_read_the_clock:
  "map EndTime (snd (snd (FetchMetrics
      (recording (tickingClient (Some \<lparr>Datapoints = ([] :: int Datapoint option list)\<rparr>,
         None :: string error option)))
      \<lparr>FunctionName = ''myFunction'', Prefix = ''lambda'', AccessKeyID = [],
        SecretAccessKey = [], Region = []\<rparr> (0, []))))
    = [0, 1, 2, 3]
   \<and> map StartTime (snd (snd (FetchMetrics
      (recording (tickingClient (Some \<lparr>Datapoints = ([] :: int Datapoint option list)\<rparr>,
         None :: string error option)))
      \<lparr>FunctionName = ''myFunction'', Prefix = ''lambda'', AccessKeyID = [],
        SecretAccessKey = [], Region = []\<rparr> (0, []))))
    = [- 180000000000, - 179999999999, - 179999999998, - 179999999997]"
  by (simp add: FetchMetrics_def catalog_def getLastPointFromCloudWatch_def
      getMetricStatisticsInput_def recording_def tickingClient_def Add_def Second_def)

text \<open>
  In a run of \<open>FetchMetrics\<close> that returns, one request was made for each group of the
  catalog, in catalog order, whatever their fetches returned.
\<close>

lemma recording_log_Printf:
  "log_Printf (recording rt) g err (w, reqs) = (log_Printf rt g err w, reqs)"
  by (simp add: recording_def)

lemma fetch_loop_requests:
  "fetch_loop (recording rt) p gs stat (w, reqs) = (Return s, (w', reqs')) \<Longrightarrow>
     map MetricName reqs' = map MetricName reqs @ map CloudWatchName gs
     \<and> (\<forall>q\<in>set reqs' - set reqs.
           Dimensions q = [\<lparr>Name = ''FunctionName'', Value = FunctionName p\<rparr>]
           \<and> StartTime q = EndTime q - 180 * 1000000000 \<and> Period q = 600
           \<and> Namespace q = ''AWS/Lambda'')"
proof (induction gs arbitrary: stat w reqs)
  case Nil
  then show ?case by simp
next
  case (Cons g gs)
  let ?q = "\<lparr>Dimensions = [\<lparr>Name = ''FunctionName'', Value = FunctionName p\<rparr>],
               StartTime = fst (time_Now rt w) - 180 * 1000000000,
               EndTime = fst (time_Now rt w),
               MetricName = CloudWatchName g,
               Period = 600,
               Statistics = map Type (Metrics g),
               Namespace = ''AWS/Lambda''\<rparr>"
  from Cons.prems obtain stat' w1
    where run: "fetch_loop (recording rt) p gs stat' (w1, reqs @ [?q]) = (Return s, (w', reqs'))"
    by (auto simp: recording_getLastPoint recording_log_Printf
        split: exec.splits sum.splits)
  from Cons.IH[OF run] show ?case by auto
qed

lemma FetchMetrics_requests:
  assumes "FetchMetrics (recording rt) p (w, []) = (Return x, (w', reqs))"
  shows "map MetricName reqs = [''Invocations'', ''Errors'', ''Throttles'', ''Duration'']"
    and "\<forall>q\<in>set reqs.
           Dimensions q = [\<lparr>Name = ''FunctionName'', Value = FunctionName p\<rparr>]
           \<and> StartTime q = EndTime q - 180 * 1000000000 \<and> Period q = 600
           \<and> Namespace q = ''AWS/Lambda''"
proof -
  from assms obtain s where "fetch_loop (recording rt) p catalog Map.empty (w, []) = (Return s, (w', reqs))"
    by (auto simp: FetchMetrics_def split: prod.splits exec.splits)
  from fetch_loop_requests[OF this]
  show "map MetricName reqs = [''Invocations'', ''Errors'', ''Throttles'', ''Duration'']"
    and "\<forall>q\<in>set reqs.
           Dimensions q = [\<lparr>Name = ''FunctionName'', Value = FunctionName p\<rparr>]
           \<and> StartTime q = EndTime q - 180 * 1000000000 \<and> Period q = 600
           \<and> Namespace q = ''AWS/Lambda''"
    by (simp_all add: catalog_def)
qed

section \<open>The catalog\<close>

text \<open>
  C5 as stated fails on the name: the output name of the Invocations group is
  \<open>TEMPORARY_invocations_total\<close>; no group writes \<open>invocations_total\<close>, and
  \<open>TransformMetrics\<close> leaves a key of that name where it is and computes no success value
  from it.
\<close>

theorem catalog_internal_name_differs:
  "output_names (catalog ! 0) = [''TEMPORARY_invocations_total'']
   \<and> ''invocations_total'' \<notin> set (concat (map output_names catalog))
   \<and> TransformMetrics [''invocations_total'' \<mapsto> Float64 (150::int)] ''invocations_total''
      = Some (Float64 150)
   \<and> TransformMetrics [''invocations_total'' \<mapsto> Float64 (150::int)] ''invocations_success''
      = None"
  by (simp add: catalog_def output_names_def TransformMetrics_def)

lemma GraphDefinition_names:
  "(\<Union>G\<in>ran (GraphDefinition title p). Name_mp ` set (Metrics_g G)) =
     {''invocations_success'', ''invocations_error'', ''invocations_throttles'',
      ''duration_avg'', ''duration_max'', ''duration_min''}"
proof -
  have "ran (GraphDefinition title p) =
    {\<lparr>Label_g = title (Prefix p) @ '' Invocations'', Unit_g = ''integer'', Metrics_g =
               [\<lparr>Name_mp = ''invocations_success'', Label_mp = ''Success'', Stacked_mp = True\<rparr>,
                \<lparr>Name_mp = ''invocations_error'', Label_mp = ''Error'', Stacked_mp = True\<rparr>,
                \<lparr>Name_mp = ''invocations_throttles'', Label_mp = ''Throttles'',
                  Stacked_mp = True\<rparr>]\<rparr>,
     \<lparr>Label_g = title (Prefix p) @ '' Duration'', Unit_g = ''float'', Metrics_g =
               [\<lparr>Name_mp = ''duration_avg'', Label_mp = ''Average'', Stacked_mp = False\<rparr>,
                \<lparr>Name_mp = ''duration_max'', Label_mp = ''Maximum'', Stacked_mp = False\<rparr>,
                \<lparr>Name_mp = ''duration_min'', Label_mp = ''Minimum'', Stacked_mp = False\<rparr>]\<rparr>}"
    unfolding GraphDefinition_def Let_def
    apply (subst ran_map_upd)
     apply simp
    apply (subst ran_map_upd)
     apply simp
    apply (simp add: insert_commute)
    done
  then show ?thesis by auto
qed

text \<open>
  C5, as amended. The catalog is the list of four groups: Invocations with Sum to
  \<open>TEMPORARY_invocations_total\<close>, Errors with Sum to \<open>invocations_error\<close>, Throttles with
  Sum to \<open>invocations_throttles\<close>, Duration with Average, Maximum and Minimum to
  \<open>duration_avg\<close>, \<open>duration_max\<close> and \<open>duration_min\<close>. The first name is internal:
  \<open>TransformMetrics\<close> turns a total into a success value and deletes the key, no graph
  definition names it, and no record returned by \<open>FetchMetrics\<close> holds it.
\<close>

theorem catalog_groups:
  "map (\<lambda>g. (CloudWatchName g, map (\<lambda>m. (Type m, MackerelName m)) (Metrics g))) catalog =
     [(''Invocations'', [(''Sum'', ''TEMPORARY_invocations_total'')]),
      (''Errors'', [(''Sum'', ''invocations_error'')]),
      (''Throttles'', [(''Sum'', ''invocations_throttles'')]),
      (''Duration'', [(''Average'', ''duration_avg''), (''Maximum'', ''duration_max''),
         (''Minimum'', ''duration_min'')])]
   \<and> (stats ''TEMPORARY_invocations_total'' = Some (Float64 t)
        \<longrightarrow> TransformMetrics stats ''invocations_success'' \<noteq> None
          \<and> TransformMetrics stats ''TEMPORARY_invocations_total'' = None)
   \<and> ''TEMPORARY_invocations_total''
        \<notin> (\<Union>G\<in>ran (GraphDefinition title p). Name_mp ` set (Metrics_g G))
   \<and> (FetchMetrics rt p w = (Return (r, e), w')
        \<longrightarrow> r ''TEMPORARY_invocations_total'' = None)"
proof (intro conjI impI)
  show "map (\<lambda>g. (CloudWatchName g, map (\<lambda>m. (Type m, MackerelName m)) (Metrics g))) catalog =
     [(''Invocations'', [(''Sum'', ''TEMPORARY_invocations_total'')]),
      (''Errors'', [(''Sum'', ''invocations_error'')]),
      (''Throttles'', [(''Sum'', ''invocations_throttles'')]),
      (''Duration'', [(''Average'', ''duration_avg''), (''Maximum'', ''duration_max''),
         (''Minimum'', ''duration_min'')])]"
    by (simp add: catalog_def metricsTypeSum_def metricsTypeAverage_def
        metricsTypeMaximum_def metricsTypeMinimum_def)
  show "''TEMPORARY_invocations_total''
        \<notin> (\<Union>G\<in>ran (GraphDefinition title p). Name_mp ` set (Metrics_g G))"
    unfolding GraphDefinition_names by simp
next
  assume t: "stats ''TEMPORARY_invocations_total'' = Some (Float64 t)"
  then show "TransformMetrics stats ''invocations_success'' \<noteq> None"
    by (simp add: TransformMetrics_def split: option.splits interface.splits)
  from t show "TransformMetrics stats ''TEMPORARY_invocations_total'' = None"
    by (simp add: TransformMetrics_def split: option.splits interface.splits)
next
  assume "FetchMetrics rt p w = (Return (r, e), w')"
  then obtain s where s: "fetch_loop rt p catalog Map.empty w = (Return s, w')"
    and r: "r = TransformMetrics s"
    by (auto simp: FetchMetrics_def split: prod.splits exec.splits)
  have "float64_record s"
    using fetch_loop_float64[OF s float64_record_empty] .
  then show "r ''TEMPORARY_invocations_total'' = None"
    unfolding r by (rule TransformMetrics_deletes_total)
qed

theorem catalog_groups_witness:
  "TransformMetrics [''TEMPORARY_invocations_total'' \<mapsto> Float64 (150::int)]
      ''invocations_success'' \<noteq> None
   \<and> TransformMetrics [''TEMPORARY_invocations_total'' \<mapsto> Float64 (150::int)]
      ''TEMPORARY_invocations_total'' = None
   \<and> FetchMetrics (mockCloudWatchClient 1000000000000)
      \<lparr>FunctionName = ''myFunction'', Prefix = ''lambda'', AccessKeyID = [],
        SecretAccessKey = [], Region = []\<rparr> 0
    = (Return (TransformMetrics
         [''TEMPORARY_invocations_total'' \<mapsto> Float64 25,
          ''invocations_error'' \<mapsto> Float64 25,
          ''invocations_throttles'' \<mapsto> Float64 25,
          ''duration_avg'' \<mapsto> Float64 25,
          ''duration_max'' \<mapsto> Float64 45,
          ''duration_min'' \<mapsto> Float64 5], None), 4)
   \<and> TransformMetrics
         [''TEMPORARY_invocations_total'' \<mapsto> Float64 (25::int),
          ''invocations_error'' \<mapsto> Float64 25,
          ''invocations_throttles'' \<mapsto> Float64 25,
          ''duration_avg'' \<mapsto> Float64 25,
          ''duration_max'' \<mapsto> Float64 45,
          ''duration_min'' \<mapsto> Float64 5] ''TEMPORARY_invocations_total'' = None"
proof -
  let ?rt = "mockCloudWatchClient 1000000000000"
  let ?p = "\<lparr>FunctionName = ''myFunction'', Prefix = ''lambda'', AccessKeyID = [],
        SecretAccessKey = [], Region = []\<rparr>"
  let ?s = "[''TEMPORARY_invocations_total'' \<mapsto> Float64 (25::int),
          ''invocations_error'' \<mapsto> Float64 25,
          ''invocations_throttles'' \<mapsto> Float64 25,
          ''duration_avg'' \<mapsto> Float64 25,
          ''duration_max'' \<mapsto> Float64 45,
          ''duration_min'' \<mapsto> Float64 5]"
  have h1: "[''TEMPORARY_invocations_total'' \<mapsto> Float64 (150::int)]
      ''TEMPORARY_invocations_total'' = Some (Float64 150)"
    by simp
  have h2: "FetchMetrics ?rt ?p 0 = (Return (TransformMetrics ?s, None), 4)"
    unfolding FetchMetrics_def mock_run by simp
  note t = catalog_groups
    [of "[''TEMPORARY_invocations_total'' \<mapsto> Float64 (150::int)]" 150 id ?p ?rt 0
      "TransformMetrics ?s" None 4]
  from conjunct1[OF conjunct2[OF t]] h1
  have a: "TransformMetrics [''TEMPORARY_invocations_total'' \<mapsto> Float64 (150::int)]
        ''invocations_success'' \<noteq> None
      \<and> TransformMetrics [''TEMPORARY_invocations_total'' \<mapsto> Float64 (150::int)]
        ''TEMPORARY_invocations_total'' = None"
    by (rule mp)
  from conjunct2[OF conjunct2[OF conjunct2[OF t]]] h2
  have b: "TransformMetrics ?s ''TEMPORARY_invocations_total'' = None"
    by (rule mp)
  from conjunct1[OF a] conjunct2[OF a] h2 b show ?thesis by (intro conjI)
qed

end
